theory Spec2Isabelle
  imports Main
begin

section \<open>Data model\<close>

text \<open>
  The stack type-checker (\<^verbatim>\<open>gofra/typecheck/type_safety.py\<close>) and the ARM64/MacOS
  backend (\<^verbatim>\<open>gofra/codegen/backends/arm64_macos.py\<close>) work on the parser's operator
  records. The enumerations below list the members the two source files match on.
\<close>

datatype GofraType = INTEGER | POINTER | BOOLEAN

datatype OperatorType =
  PUSH_INTEGER | PUSH_STRING | INTRINSIC | IF | DO | WHILE | END | CALL

datatype Intrinsic =
    PLUS | MINUS | MULTIPLY | DIVIDE | MODULUS
  | INCREMENT | DECREMENT
  | EQUAL | NOT_EQUAL | LESS_THAN | LESS_EQUAL_THAN | GREATER_THAN | GREATER_EQUAL_THAN
  | DROP | COPY | SWAP
  | MEMORY_LOAD | MEMORY_STORE
  | SYSCALL0 | SYSCALL1 | SYSCALL2 | SYSCALL3 | SYSCALL4 | SYSCALL5 | SYSCALL6

text \<open>
  The operand of an operator is an integer, a string, an intrinsic or absent
  (\<^verbatim>\<open>int | str | Intrinsic | None\<close>).
\<close>

datatype Operand = IntOperand int | StrOperand string | IntrinsicOperand Intrinsic | NoOperand

text \<open>
  The source token. Only its text is read by the code modelled here (the location is
  read by the debug comments alone).
\<close>

record Token =
  token_text :: string

text \<open>
  An operator. \<open>syscall_optimization_injected_args\<close> is \<^verbatim>\<open>list[int | None] | None\<close>:
  the outer option is the absent block, the inner one the slot taken from the stack at
  run time.
\<close>

record Operator =
  type :: OperatorType
  token :: Token
  operand :: Operand
  jumps_to_operator_idx :: "int option"
  has_optimizations :: bool
  infer_type_after_optimization :: "GofraType option"
  syscall_optimization_omit_result :: bool
  syscall_optimization_injected_args :: "int option list option"

record Function =
  name :: string
  type_contract_in :: "GofraType list"
  type_contract_out :: "GofraType list"
  source :: "Operator list"
  emit_inline_body :: bool
  is_externally_defined :: bool

text \<open>
  The program context. \<open>function_table\<close> is \<^verbatim>\<open>functions\<close>, a Python dict, kept as an
  association list in insertion order (its keys are distinct); \<open>extern_functions\<close> is
  read with \<^verbatim>\<open>getattr(program_context, 'extern_functions', set())\<close>, so \<open>None\<close>
  stands for a context that has no such attribute.
\<close>

record ProgramContext =
  operators :: "Operator list"
  function_table :: "(string \<times> Function) list"
  extern_functions :: "string set option"

definition get_extern_functions :: "ProgramContext \<Rightarrow> string set" where
  "get_extern_functions pc = (case extern_functions pc of None \<Rightarrow> {} | Some s \<Rightarrow> s)"

section \<open>Errors\<close>

text \<open>
  Every exception the modelled code can raise is a value. The first five are the
  type-checker's error kinds (the two raised inside \<^verbatim>\<open>TypecheckContext\<close> carry the
  names of the specification's error taxonomy); the rest are Python's own exceptions.
  The arithmetic errors carry \<open>actual_lhs_type\<close>, \<open>actual_rhs_type\<close> and the operator.
\<close>

datatype error =
    InsufficientOperands Operator nat
  | InvalidArgumentType GofraType GofraType Operator
  | TypecheckInvalidPointerArithmeticsError GofraType GofraType Operator
  | TypecheckInvalidBinaryMathArithmeticsError GofraType GofraType Operator
  | TypecheckNonEmptyStackAtEndError nat
  | KeyError string
  | IndexError
  | AssertionError
  | TypeError

text \<open>Sequencing of fallible steps: the first exception ends the run.\<close>

fun and_then :: "error + 'a \<Rightarrow> ('a \<Rightarrow> error + 'b) \<Rightarrow> error + 'b" where
  "and_then (Inl e) f = Inl e"
| "and_then (Inr x) f = f x"

section \<open>Decimal rendering\<close>

text \<open>Python's \<^verbatim>\<open>"%d" % n\<close> and \<^verbatim>\<open>str(n)\<close> for an integer.\<close>

function str_of_nat :: "nat \<Rightarrow> string" where
  "str_of_nat n =
     (if n < 10 then [''0123456789'' ! n]
      else str_of_nat (n div 10) @ [''0123456789'' ! (n mod 10)])"
  by pat_completeness auto
termination
  by (relation "measure (\<lambda>n. n)") auto

declare str_of_nat.simps [simp del]

definition str_of_int :: "int \<Rightarrow> string" where
  "str_of_int i = (if i < 0 then ''-'' @ str_of_nat (nat (- i)) else str_of_nat (nat i))"

section \<open>The abstract stack of the type-checker\<close>

text \<open>
  The abstract stack is \<^verbatim>\<open>context.emulated_stack_types\<close>, a Python list whose last
  element is the top of the stack.
\<close>

type_synonym type_stack = "GofraType list"

text \<open>
  Modelled from the spec: the methods of \<^verbatim>\<open>TypecheckContext\<close>
  (\<^verbatim>\<open>gofra/typecheck/_context.py\<close>), which the type-checker calls and whose file is
  not among the sources. Push appends to the right and pop removes from the right
  (\<^verbatim>\<open>list.pop()\<close>, which raises \<^verbatim>\<open>IndexError\<close> on an empty list); a shortfall
  of operands raises the insufficient-operands error with the operator and the required
  count; a popped type other than the expected one raises the invalid-argument-type
  error with the expected type, the actual type and the operator.
\<close>

definition push_types :: "type_stack \<Rightarrow> GofraType list \<Rightarrow> type_stack" where
  "push_types st ts = st @ ts"

definition pop_argument_type :: "type_stack \<Rightarrow> error + (GofraType \<times> type_stack)" where
  "pop_argument_type st = (if st = [] then Inl IndexError else Inr (last st, butlast st))"

definition raise_for_enough_arguments :: "type_stack \<Rightarrow> Operator \<Rightarrow> nat \<Rightarrow> error + unit" where
  "raise_for_enough_arguments st operator required_args =
     (if length st < required_args then Inl (InsufficientOperands operator required_args)
      else Inr ())"

fun consume_n_arguments :: "nat \<Rightarrow> type_stack \<Rightarrow> error + type_stack" where
  "consume_n_arguments 0 st = Inr st"
| "consume_n_arguments (Suc n) st =
     and_then (pop_argument_type st) (\<lambda>(t, st'). consume_n_arguments n st')"

definition pop_and_raise_for_argument_type ::
  "GofraType \<Rightarrow> Operator \<Rightarrow> type_stack \<Rightarrow> error + type_stack" where
  "pop_and_raise_for_argument_type expected operator st =
     and_then (pop_argument_type st) (\<lambda>(actual, st').
       if actual \<noteq> expected then Inl (InvalidArgumentType expected actual operator)
       else Inr st')"

text \<open>
  Modelled from the spec: \<^verbatim>\<open>Operator.get_syscall_arguments_count\<close>, a method of the
  parser's operator class. For \<^verbatim>\<open>SYSCALLn\<close> the count is \<open>n + 1\<close>: the syscall
  number slot and \<open>n\<close> arguments. It is called on syscall intrinsics only.
\<close>

fun syscall_arguments_count :: "Intrinsic \<Rightarrow> nat" where
  "syscall_arguments_count SYSCALL0 = 1"
| "syscall_arguments_count SYSCALL1 = 2"
| "syscall_arguments_count SYSCALL2 = 3"
| "syscall_arguments_count SYSCALL3 = 4"
| "syscall_arguments_count SYSCALL4 = 5"
| "syscall_arguments_count SYSCALL5 = 6"
| "syscall_arguments_count SYSCALL6 = 7"
| "syscall_arguments_count _ = 0"

text \<open>
  Python's \<^verbatim>\<open>str(operator.operand)\<close>: a string is itself, an integer its decimal
  form, \<^verbatim>\<open>None\<close> the text \<^verbatim>\<open>None\<close>, a member of the enumeration its qualified
  name.
\<close>

fun Intrinsic_name :: "Intrinsic \<Rightarrow> string" where
  "Intrinsic_name PLUS = ''PLUS''"
| "Intrinsic_name MINUS = ''MINUS''"
| "Intrinsic_name MULTIPLY = ''MULTIPLY''"
| "Intrinsic_name DIVIDE = ''DIVIDE''"
| "Intrinsic_name MODULUS = ''MODULUS''"
| "Intrinsic_name INCREMENT = ''INCREMENT''"
| "Intrinsic_name DECREMENT = ''DECREMENT''"
| "Intrinsic_name EQUAL = ''EQUAL''"
| "Intrinsic_name NOT_EQUAL = ''NOT_EQUAL''"
| "Intrinsic_name LESS_THAN = ''LESS_THAN''"
| "Intrinsic_name LESS_EQUAL_THAN = ''LESS_EQUAL_THAN''"
| "Intrinsic_name GREATER_THAN = ''GREATER_THAN''"
| "Intrinsic_name GREATER_EQUAL_THAN = ''GREATER_EQUAL_THAN''"
| "Intrinsic_name DROP = ''DROP''"
| "Intrinsic_name COPY = ''COPY''"
| "Intrinsic_name SWAP = ''SWAP''"
| "Intrinsic_name MEMORY_LOAD = ''MEMORY_LOAD''"
| "Intrinsic_name MEMORY_STORE = ''MEMORY_STORE''"
| "Intrinsic_name SYSCALL0 = ''SYSCALL0''"
| "Intrinsic_name SYSCALL1 = ''SYSCALL1''"
| "Intrinsic_name SYSCALL2 = ''SYSCALL2''"
| "Intrinsic_name SYSCALL3 = ''SYSCALL3''"
| "Intrinsic_name SYSCALL4 = ''SYSCALL4''"
| "Intrinsic_name SYSCALL5 = ''SYSCALL5''"
| "Intrinsic_name SYSCALL6 = ''SYSCALL6''"

fun str_of_operand :: "Operand \<Rightarrow> string" where
  "str_of_operand (StrOperand s) = s"
| "str_of_operand (IntOperand i) = str_of_int i"
| "str_of_operand (IntrinsicOperand i) = ''Intrinsic.'' @ Intrinsic_name i"
| "str_of_operand NoOperand = ''None''"

section \<open>The type-checker\<close>

text \<open>
  One arm of the inner \<^verbatim>\<open>match operator.operand\<close> per equation group, in the source's
  order. The stack is threaded through; an exception is \<open>Inl\<close>.
\<close>

definition typecheck_plus_minus :: "Operator \<Rightarrow> type_stack \<Rightarrow> error + type_stack" where
  "typecheck_plus_minus operator st =
     and_then (raise_for_enough_arguments st operator 2) (\<lambda>_.
     and_then (pop_argument_type st) (\<lambda>(b, st1).
     and_then (pop_argument_type st1) (\<lambda>(a, st2).
       if a = POINTER then
         (if b \<noteq> INTEGER then Inl (TypecheckInvalidPointerArithmeticsError a b operator)
          else Inr (push_types st2 [POINTER]))
       else
         and_then (pop_and_raise_for_argument_type INTEGER operator (push_types st2 [b, a])) (\<lambda>st3.
         and_then (pop_and_raise_for_argument_type INTEGER operator st3) (\<lambda>st4.
           Inr (push_types st4 [INTEGER]))))))"

definition typecheck_binary_math :: "Operator \<Rightarrow> type_stack \<Rightarrow> error + type_stack" where
  "typecheck_binary_math operator st =
     and_then (raise_for_enough_arguments st operator 2) (\<lambda>_.
     and_then (pop_argument_type st) (\<lambda>(b, st1).
     and_then (pop_argument_type st1) (\<lambda>(a, st2).
       if b \<noteq> INTEGER \<or> a \<noteq> INTEGER
       then Inl (TypecheckInvalidBinaryMathArithmeticsError a b operator)
       else Inr (push_types st2 [INTEGER]))))"

definition typecheck_syscall :: "Operator \<Rightarrow> Intrinsic \<Rightarrow> type_stack \<Rightarrow> error + type_stack" where
  "typecheck_syscall operator i st =
     (let args_count = syscall_arguments_count i;
          st1 = (case syscall_optimization_injected_args operator of
                   None \<Rightarrow> st
                 | Some injected_args \<Rightarrow>
                     if injected_args = [] then st
                     else push_types st (map (\<lambda>_. INTEGER) (filter (\<lambda>v. v \<noteq> None) injected_args)))
      in and_then (raise_for_enough_arguments st1 operator args_count) (\<lambda>_.
         and_then (consume_n_arguments args_count st1) (\<lambda>st2.
           if \<not> syscall_optimization_omit_result operator
           then Inr (push_types st2 [INTEGER]) else Inr st2)))"

definition typecheck_consume_push ::
  "Operator \<Rightarrow> nat \<Rightarrow> GofraType list \<Rightarrow> type_stack \<Rightarrow> error + type_stack" where
  "typecheck_consume_push operator n ts st =
     and_then (raise_for_enough_arguments st operator n) (\<lambda>_.
     and_then (consume_n_arguments n st) (\<lambda>st1. Inr (push_types st1 ts)))"

definition typecheck_increment :: "Operator \<Rightarrow> type_stack \<Rightarrow> error + type_stack" where
  "typecheck_increment operator st =
     and_then (raise_for_enough_arguments st operator 1) (\<lambda>_.
     and_then (pop_and_raise_for_argument_type INTEGER operator st) (\<lambda>st1.
       Inr (push_types st1 [INTEGER])))"

definition typecheck_copy :: "Operator \<Rightarrow> type_stack \<Rightarrow> error + type_stack" where
  "typecheck_copy operator st =
     and_then (raise_for_enough_arguments st operator 1) (\<lambda>_.
     and_then (pop_argument_type st) (\<lambda>(arg_type, st1).
       Inr (push_types st1 [arg_type, arg_type])))"

definition typecheck_swap :: "Operator \<Rightarrow> type_stack \<Rightarrow> error + type_stack" where
  "typecheck_swap operator st =
     and_then (raise_for_enough_arguments st operator 1) (\<lambda>_.
     and_then (pop_argument_type st) (\<lambda>(a, st1).
     and_then (pop_argument_type st1) (\<lambda>(b, st2).
       Inr (push_types st2 [a, b]))))"

fun typecheck_intrinsic :: "Operator \<Rightarrow> Intrinsic \<Rightarrow> type_stack \<Rightarrow> error + type_stack" where
  "typecheck_intrinsic operator MEMORY_STORE st = typecheck_consume_push operator 2 [] st"
| "typecheck_intrinsic operator MEMORY_LOAD st = typecheck_consume_push operator 2 [INTEGER] st"
| "typecheck_intrinsic operator INCREMENT st = typecheck_increment operator st"
| "typecheck_intrinsic operator DECREMENT st = typecheck_increment operator st"
| "typecheck_intrinsic operator DROP st = typecheck_consume_push operator 1 [] st"
| "typecheck_intrinsic operator EQUAL st = typecheck_consume_push operator 2 [BOOLEAN] st"
| "typecheck_intrinsic operator LESS_EQUAL_THAN st = typecheck_consume_push operator 2 [BOOLEAN] st"
| "typecheck_intrinsic operator LESS_THAN st = typecheck_consume_push operator 2 [BOOLEAN] st"
| "typecheck_intrinsic operator GREATER_EQUAL_THAN st = typecheck_consume_push operator 2 [BOOLEAN] st"
| "typecheck_intrinsic operator GREATER_THAN st = typecheck_consume_push operator 2 [BOOLEAN] st"
| "typecheck_intrinsic operator NOT_EQUAL st = typecheck_consume_push operator 2 [BOOLEAN] st"
| "typecheck_intrinsic operator MINUS st = typecheck_plus_minus operator st"
| "typecheck_intrinsic operator PLUS st = typecheck_plus_minus operator st"
| "typecheck_intrinsic operator MULTIPLY st = typecheck_binary_math operator st"
| "typecheck_intrinsic operator DIVIDE st = typecheck_binary_math operator st"
| "typecheck_intrinsic operator MODULUS st = typecheck_binary_math operator st"
| "typecheck_intrinsic operator COPY st = typecheck_copy operator st"
| "typecheck_intrinsic operator SWAP st = typecheck_swap operator st"
| "typecheck_intrinsic operator i st = typecheck_syscall operator i st"

text \<open>The \<^verbatim>\<open>IF\<close> and \<^verbatim>\<open>DO\<close> arms: a boolean on top, popped.\<close>

definition typecheck_condition :: "Operator \<Rightarrow> type_stack \<Rightarrow> error + type_stack" where
  "typecheck_condition operator st =
     and_then (raise_for_enough_arguments st operator 1) (\<lambda>_.
       pop_and_raise_for_argument_type BOOLEAN operator st)"

text \<open>
  The \<^verbatim>\<open>for type_in in reversed(function.type_contract_in)\<close> loop of the
  \<^verbatim>\<open>CALL\<close> arm.
\<close>

fun pop_contract_types :: "GofraType list \<Rightarrow> Operator \<Rightarrow> type_stack \<Rightarrow> error + type_stack" where
  "pop_contract_types [] operator st = Inr st"
| "pop_contract_types (type_in # rest) operator st =
     and_then (pop_and_raise_for_argument_type type_in operator st)
       (pop_contract_types rest operator)"

definition typecheck_call :: "ProgramContext \<Rightarrow> Operator \<Rightarrow> type_stack \<Rightarrow> error + type_stack" where
  "typecheck_call program_context operator st =
     (let func_name = str_of_operand (operand operator) in
      if func_name \<in> get_extern_functions program_context then
        and_then (raise_for_enough_arguments st operator 1) (\<lambda>_.
        and_then (pop_and_raise_for_argument_type INTEGER operator st) (\<lambda>st1.
          Inr (push_types st1 [INTEGER])))
      else
        (case map_of (function_table program_context) func_name of
           None \<Rightarrow> Inl (KeyError func_name)
         | Some function \<Rightarrow>
             and_then (raise_for_enough_arguments st operator (length (type_contract_in function))) (\<lambda>_.
             and_then (pop_contract_types (rev (type_contract_in function)) operator st) (\<lambda>st1.
               Inr (push_types st1 (type_contract_out function))))))"

text \<open>The body of the \<^verbatim>\<open>for operator in operators\<close> loop: the outer match.\<close>

definition typecheck_operator :: "ProgramContext \<Rightarrow> Operator \<Rightarrow> type_stack \<Rightarrow> error + type_stack" where
  "typecheck_operator program_context operator st =
     (case type operator of
        WHILE \<Rightarrow> Inr st
      | END \<Rightarrow> Inr st
      | PUSH_INTEGER \<Rightarrow>
          (case infer_type_after_optimization operator of
             Some t \<Rightarrow> if has_optimizations operator then Inr (push_types st [t])
                       else Inr (push_types st [INTEGER])
           | None \<Rightarrow> Inr (push_types st [INTEGER]))
      | PUSH_STRING \<Rightarrow> Inr (push_types st [POINTER, INTEGER])
      | INTRINSIC \<Rightarrow>
          (case operand operator of
             IntrinsicOperand i \<Rightarrow> typecheck_intrinsic operator i st
           | _ \<Rightarrow> Inl AssertionError)
      | IF \<Rightarrow> typecheck_condition operator st
      | CALL \<Rightarrow> typecheck_call program_context operator st
      | DO \<Rightarrow> typecheck_condition operator st)"

text \<open>The loop itself, started on a given abstract stack.\<close>

fun typecheck_operators ::
  "ProgramContext \<Rightarrow> Operator list \<Rightarrow> type_stack \<Rightarrow> error + type_stack" where
  "typecheck_operators program_context [] st = Inr st"
| "typecheck_operators program_context (operator # rest) st =
     and_then (typecheck_operator program_context operator st)
       (typecheck_operators program_context rest)"

text \<open>
  \<^verbatim>\<open>validate_type_safety\<close>: the context is created with an empty
  \<^verbatim>\<open>emulated_stack_types\<close>, the loop runs, and a stack that is not empty at the end
  raises the non-empty-stack error with its size.
\<close>

definition validate_type_safety :: "ProgramContext \<Rightarrow> Operator list \<Rightarrow> error + unit" where
  "validate_type_safety program_context ops =
     and_then (typecheck_operators program_context ops []) (\<lambda>st.
       if st \<noteq> [] then Inl (TypecheckNonEmptyStackAtEndError (length st)) else Inr ())"

section \<open>The code generator\<close>

text \<open>
  The backend writes assembly text to an output sink and keeps a table of string
  literals. The sink is the text written so far.

  Modelled from the spec: \<^verbatim>\<open>CodegenContext\<close> (\<^verbatim>\<open>gofra/codegen/_context.py\<close>),
  whose file is not among the sources. \<^verbatim>\<open>write\<close> emits each of its lines indented
  and ended by a newline; \<^verbatim>\<open>load_string\<close> stores the payload under a fresh label
  \<^verbatim>\<open>str_0\<close>, \<^verbatim>\<open>str_1\<close>, ... numbered in encounter order, and returns the label.
  The table is a dict keyed by label, kept in insertion order.
\<close>

record CodegenContext =
  fd :: string
  strings :: "(string \<times> string) list"

definition fd_write :: "CodegenContext \<Rightarrow> string \<Rightarrow> CodegenContext" where
  "fd_write context s = context\<lparr>fd := fd context @ s\<rparr>"

definition context_write :: "CodegenContext \<Rightarrow> string list \<Rightarrow> CodegenContext" where
  "context_write context lines =
     fd_write context (concat (map (\<lambda>line. [CHR 0x09] @ line @ [CHR 0x0A]) lines))"

definition load_string :: "CodegenContext \<Rightarrow> string \<Rightarrow> string \<times> CodegenContext" where
  "load_string context s =
     (let string_key = ''str_'' @ str_of_nat (length (strings context))
      in (string_key, context\<lparr>strings := strings context @ [(string_key, s)]\<rparr>))"

text \<open>
  Python's \<^verbatim>\<open>xs[i]\<close>: a negative index counts from the end, an index out of range
  raises \<^verbatim>\<open>IndexError\<close>. \<^verbatim>\<open>text[1:-1]\<close> drops the first and the last character
  (and is empty for a text of fewer than two characters).
\<close>

definition list_index :: "'a list \<Rightarrow> int \<Rightarrow> error + 'a" where
  "list_index xs i =
     (let j = (if i < 0 then i + int (length xs) else i)
      in if 0 \<le> j \<and> j < int (length xs) then Inr (xs ! nat j) else Inl IndexError)"

definition strip_first_last :: "string \<Rightarrow> string" where
  "strip_first_last s = butlast (tl s)"

subsection \<open>Templates of the intrinsics other than syscalls\<close>

text \<open>
  Each arm of \<^verbatim>\<open>match operator.operand\<close> other than the syscall arm is one call of
  \<^verbatim>\<open>context.write\<close> with fixed lines; \<open>intrinsic_lines\<close> gives the lines of the arm.
\<close>

definition binary_lines :: "string list \<Rightarrow> string list" where
  "binary_lines compute =
     [''ldr X0, [SP]'', ''add SP, SP, #16'', ''ldr X1, [SP]'', ''add SP, SP, #16'']
     @ compute @ [''sub SP, SP, #16'', ''str X0, [SP]'']"

definition compare_lines :: "string \<Rightarrow> string list" where
  "compare_lines cc =
     [''ldr X1, [SP]'', ''add SP, SP, #16'', ''ldr X0, [SP]'', ''add SP, SP, #16'',
      ''cmp X0, X1'', ''cset X0, '' @ cc, ''sub SP, SP, #16'', ''str X0, [SP]'']"

fun intrinsic_lines :: "Intrinsic \<Rightarrow> string list" where
  "intrinsic_lines MEMORY_LOAD = [''ldr X0, [SP]'', ''ldr X1, [X0]'', ''str X1, [SP]'']"
| "intrinsic_lines MEMORY_STORE =
     [''ldr X0, [SP]'', ''add SP, SP, #16'', ''ldr X1, [SP]'', ''str X0, [X1]'']"
| "intrinsic_lines DROP = [''add SP, SP, #16'']"
| "intrinsic_lines PLUS = binary_lines [''add X0, X1, X0'']"
| "intrinsic_lines MINUS = binary_lines [''sub X0, X1, X0'']"
| "intrinsic_lines COPY =
     [''ldr X0, [SP]'', ''str X0, [SP]'', ''sub SP, SP, #16'', ''str X0, [SP]'']"
| "intrinsic_lines INCREMENT = [''ldr X0, [SP]'', ''add X0, X0, #1'', ''str X0, [SP]'']"
| "intrinsic_lines DECREMENT = [''ldr X0, [SP]'', ''sub X0, X0, #1'', ''str X0, [SP]'']"
| "intrinsic_lines MULTIPLY = binary_lines [''mul X0, X1, X0'']"
| "intrinsic_lines DIVIDE = binary_lines [''sdiv X0, X1, X0'']"
| "intrinsic_lines MODULUS =
     binary_lines [''udiv X2, X1, X0'', ''mul X2, X2, X0'', ''sub X0, X1, X2'']"
| "intrinsic_lines NOT_EQUAL = compare_lines ''ne''"
| "intrinsic_lines GREATER_EQUAL_THAN =
     binary_lines [''cmp X0, X1'', ''cset X0, ge'']"
| "intrinsic_lines LESS_EQUAL_THAN = compare_lines ''le''"
| "intrinsic_lines LESS_THAN = compare_lines ''lt''"
| "intrinsic_lines GREATER_THAN = compare_lines ''gt''"
| "intrinsic_lines EQUAL = compare_lines ''eq''"
| "intrinsic_lines SWAP =
     [''ldr X0, [SP]'', ''add SP, SP, #16'', ''ldr X1, [SP]'', ''str X0, [SP]'',
      ''sub SP, SP, #16'', ''str X1, [SP]'']"
| "intrinsic_lines _ = []"

fun is_syscall_intrinsic :: "Intrinsic \<Rightarrow> bool" where
  "is_syscall_intrinsic SYSCALL0 = True"
| "is_syscall_intrinsic SYSCALL1 = True"
| "is_syscall_intrinsic SYSCALL2 = True"
| "is_syscall_intrinsic SYSCALL3 = True"
| "is_syscall_intrinsic SYSCALL4 = True"
| "is_syscall_intrinsic SYSCALL5 = True"
| "is_syscall_intrinsic SYSCALL6 = True"
| "is_syscall_intrinsic _ = False"

subsection \<open>The syscall arm\<close>

text \<open>
  The \<^verbatim>\<open>for arg_n in range(syscall_arguments - 1)\<close> loop. The register is
  \<^verbatim>\<open>syscall_arguments - arg_n - 2\<close>; the injected value is
  \<^verbatim>\<open>injected_args[-arg_n] if arg_n else None\<close>, read from the list after its last
  element has been popped.
\<close>

fun write_syscall_arguments ::
  "CodegenContext \<Rightarrow> nat \<Rightarrow> int option list \<Rightarrow> nat list \<Rightarrow> error + CodegenContext" where
  "write_syscall_arguments context syscall_arguments injected_args [] = Inr context"
| "write_syscall_arguments context syscall_arguments injected_args (arg_n # rest) =
     (let arg_register = syscall_arguments - arg_n - 2 in
      and_then (if arg_n \<noteq> 0 then list_index injected_args (- int arg_n) else Inr None)
        (\<lambda>injected_arg.
           write_syscall_arguments
             (case injected_arg of
                None \<Rightarrow>
                  context_write
                    (context_write context [''ldr X'' @ str_of_nat arg_register @ '', [SP]''])
                    [''add SP, SP, #16'']
              | Some v \<Rightarrow>
                  context_write context
                    [''mov X'' @ str_of_nat arg_register @ '', #'' @ str_of_int v])
             syscall_arguments injected_args rest))"

text \<open>
  The arm after \<^verbatim>\<open>injected_args\<close> has been chosen. \<open>own\<close> says that the list is the
  operator's own \<^verbatim>\<open>syscall_optimization_injected_args\<close> object (the left operand of
  \<^verbatim>\<open>or\<close>) and not the fresh list of \<^verbatim>\<open>None\<close>s: then \<^verbatim>\<open>injected_args.pop()\<close>
  shortens the operator's list, and the operator is returned updated.
\<close>

definition write_syscall_with ::
  "CodegenContext \<Rightarrow> Operator \<Rightarrow> nat \<Rightarrow> int option list \<Rightarrow> bool
    \<Rightarrow> error + (CodegenContext \<times> Operator)" where
  "write_syscall_with context operator syscall_arguments injected_args own =
     and_then (list_index injected_args (- 1)) (\<lambda>last_arg.
       let c1 = (case last_arg of
                   None \<Rightarrow> context_write context [''ldr X16, [SP]'', ''add SP, SP, #16'']
                 | Some v \<Rightarrow> context_write context [''mov X16, #'' @ str_of_int v]);
           popped = butlast injected_args;
           operator' = (if own
                        then operator\<lparr>syscall_optimization_injected_args := Some popped\<rparr>
                        else operator)
       in and_then
            (write_syscall_arguments c1 syscall_arguments popped [0..<syscall_arguments - 1])
            (\<lambda>c2.
               let c3 = context_write c2 [''svc #0'']
               in Inr (if \<not> syscall_optimization_omit_result operator
                       then context_write c3 [''sub SP, SP, #16'', ''str X0, [SP]'']
                       else c3,
                       operator')))"

definition write_syscall ::
  "CodegenContext \<Rightarrow> Operator \<Rightarrow> Intrinsic \<Rightarrow> error + (CodegenContext \<times> Operator)" where
  "write_syscall context operator i =
     (let syscall_arguments = syscall_arguments_count i in
      case syscall_optimization_injected_args operator of
        None \<Rightarrow>
          write_syscall_with context operator syscall_arguments
            (replicate syscall_arguments None) False
      | Some args \<Rightarrow>
          if args = [] then
            write_syscall_with context operator syscall_arguments
              (replicate syscall_arguments None) False
          else write_syscall_with context operator syscall_arguments args True)"

subsection \<open>The call arm\<close>

text \<open>
  The \<^verbatim>\<open>for arg_register in range(len(function.type_contract_in) - 1, -1, -1)\<close>
  loop: one pop per argument register, highest register first.
\<close>

fun write_call_registers :: "CodegenContext \<Rightarrow> nat list \<Rightarrow> CodegenContext" where
  "write_call_registers context [] = context"
| "write_call_registers context (arg_register # rest) =
     write_call_registers
       (context_write
          (context_write context [''ldr X'' @ str_of_nat arg_register @ '', [SP]''])
          [''add SP, SP, #16''])
       rest"

definition write_call :: "CodegenContext \<Rightarrow> ProgramContext \<Rightarrow> Operator \<Rightarrow> error + CodegenContext" where
  "write_call context program_context operator =
     (case operand operator of
        StrOperand function_name \<Rightarrow>
          (case map_of (function_table program_context) function_name of
             Some function \<Rightarrow>
               (let c1 = (if is_externally_defined function
                          then write_call_registers context
                                 (rev [0..<length (type_contract_in function)])
                          else context);
                    c2 = context_write c1 [''bl '' @ function_name]
                in Inr (if type_contract_out function \<noteq> []
                        then context_write c2 [''sub SP, SP, #16'', ''str X0, [SP]'']
                        else c2))
           | None \<Rightarrow>
               if function_name \<in> get_extern_functions program_context then
                 Inr (context_write (context_write (context_write (context_write (context_write
                        context [''ldr X0, [SP]'']) [''add SP, SP, #16''])
                        [''bl '' @ function_name]) [''sub SP, SP, #16'']) [''str X0, [SP]''])
               else Inl (KeyError function_name))
      | _ \<Rightarrow> Inl AssertionError)"

subsection \<open>One operator\<close>

text \<open>
  The body of the \<^verbatim>\<open>for idx, operator in enumerate(operators)\<close> loop of
  \<^verbatim>\<open>_write_executable_body_instruction_set\<close>, with \<^verbatim>\<open>debug_comments\<close> disabled
  (the debug branches only add comment lines, and the properties below are about the
  generator without them). The result is the context after the writes and the operator
  as the arm leaves it; only the syscall arm changes an operator. An operand that
  \<^verbatim>\<open>%d\<close> cannot format raises \<^verbatim>\<open>TypeError\<close>. The closing \<^verbatim>\<open>case _\<close> arm
  is unreachable: the eight operator kinds all have an arm.
\<close>

definition write_operator ::
  "CodegenContext \<Rightarrow> ProgramContext \<Rightarrow> nat \<Rightarrow> Operator \<Rightarrow> error + (CodegenContext \<times> Operator)" where
  "write_operator context program_context idx operator =
     (case type operator of
        PUSH_INTEGER \<Rightarrow>
          (case operand operator of
             IntOperand v \<Rightarrow>
               Inr (context_write context
                      [''sub SP, SP, #16'', ''mov X0, #'' @ str_of_int v, ''str X0, [SP]''],
                    operator)
           | _ \<Rightarrow> Inl TypeError)
      | PUSH_STRING \<Rightarrow>
          (case operand operator of
             StrOperand s \<Rightarrow>
               (let (label, c1) =
                      load_string context (strip_first_last (token_text (token operator)))
                in Inr (context_write c1
                          [''sub SP, SP, #16'', ''adr X0, '' @ label, ''str X0, [SP]'',
                           ''sub SP, SP, #16'', ''mov X0, #'' @ str_of_nat (length s),
                           ''str X0, [SP]''],
                        operator))
           | _ \<Rightarrow> Inl AssertionError)
      | DO \<Rightarrow>
          (case jumps_to_operator_idx operator of
             Some j \<Rightarrow>
               Inr (context_write context
                      [''ldr X0, [SP]'', ''add SP, SP, #16'', ''cmp X0, #1'',
                       ''bne .ctx_'' @ str_of_int j @ ''_over''],
                    operator)
           | None \<Rightarrow> Inl AssertionError)
      | END \<Rightarrow>
          (case jumps_to_operator_idx operator of
             Some j \<Rightarrow>
               Inr (fd_write (context_write context [''b .ctx_'' @ str_of_int j])
                      (''.ctx_'' @ str_of_nat idx @ ''_over:'' @ [CHR 0x0A]),
                    operator)
           | None \<Rightarrow>
               Inr (fd_write context (''.ctx_'' @ str_of_nat idx @ '':'' @ [CHR 0x0A]),
                    operator))
      | WHILE \<Rightarrow>
          (case jumps_to_operator_idx operator of
             Some j \<Rightarrow>
               Inr (fd_write (context_write context [''b .ctx_'' @ str_of_int j])
                      (''.ctx_'' @ str_of_nat idx @ ''_over:'' @ [CHR 0x0A]),
                    operator)
           | None \<Rightarrow>
               Inr (fd_write context (''.ctx_'' @ str_of_nat idx @ '':'' @ [CHR 0x0A]),
                    operator))
      | IF \<Rightarrow>
          (case jumps_to_operator_idx operator of
             Some j \<Rightarrow>
               Inr (context_write context
                      [''ldr X0, [SP]'', ''add SP, SP, #16'', ''cmp X0, #1'',
                       ''bne .ctx_'' @ str_of_int j],
                    operator)
           | None \<Rightarrow> Inl AssertionError)
      | INTRINSIC \<Rightarrow>
          (case operand operator of
             IntrinsicOperand i \<Rightarrow>
               if is_syscall_intrinsic i then write_syscall context operator i
               else Inr (context_write context (intrinsic_lines i), operator)
           | _ \<Rightarrow> Inl AssertionError)
      | CALL \<Rightarrow>
          and_then (write_call context program_context operator) (\<lambda>c. Inr (c, operator)))"

subsection \<open>Sequences, functions and the whole output\<close>

text \<open>
  The loop over a sequence, \<open>idx\<close> counting the operators as \<^verbatim>\<open>enumerate\<close> does. It
  returns the sequence as the run leaves it. Call arms read only the keys, contracts and
  flags of the function table, which no arm changes, so the program context is the one
  the generator was given.
\<close>

fun write_executable_body_from ::
  "CodegenContext \<Rightarrow> nat \<Rightarrow> Operator list \<Rightarrow> ProgramContext
    \<Rightarrow> error + (CodegenContext \<times> Operator list)" where
  "write_executable_body_from context idx [] program_context = Inr (context, [])"
| "write_executable_body_from context idx (operator # rest) program_context =
     and_then (write_operator context program_context idx operator) (\<lambda>(c1, operator').
     and_then (write_executable_body_from c1 (Suc idx) rest program_context) (\<lambda>(c2, rest').
       Inr (c2, operator' # rest')))"

definition write_executable_body_instruction_set ::
  "CodegenContext \<Rightarrow> Operator list \<Rightarrow> ProgramContext
    \<Rightarrow> error + (CodegenContext \<times> Operator list)" where
  "write_executable_body_instruction_set context ops program_context =
     write_executable_body_from context 0 ops program_context"

text \<open>
  \<^verbatim>\<open>_write_function_declarations\<close>: the functions that are neither inline nor
  external, in the table's order; each is a label, its body and \<^verbatim>\<open>ret\<close>. The table
  is returned with the bodies as the run leaves them.
\<close>

fun write_function_declarations ::
  "CodegenContext \<Rightarrow> ProgramContext \<Rightarrow> (string \<times> Function) list
    \<Rightarrow> error + (CodegenContext \<times> (string \<times> Function) list)" where
  "write_function_declarations context program_context [] = Inr (context, [])"
| "write_function_declarations context program_context ((key, function) # rest) =
     (if \<not> emit_inline_body function \<and> \<not> is_externally_defined function then
        and_then
          (write_executable_body_instruction_set
             (fd_write context (name function @ '':'' @ [CHR 0x0A]))
             (source function) program_context)
          (\<lambda>(c1, source').
             and_then
               (write_function_declarations (context_write c1 [''ret'']) program_context rest)
               (\<lambda>(c2, rest'). Inr (c2, (key, function\<lparr>source := source'\<rparr>) # rest')))
      else
        and_then (write_function_declarations context program_context rest)
          (\<lambda>(c2, rest'). Inr (c2, (key, function) # rest')))"

definition write_entry_header :: "CodegenContext \<Rightarrow> CodegenContext" where
  "write_entry_header context =
     fd_write (fd_write (fd_write context (''.global _start'' @ [CHR 0x0A]))
       (''.align 4'' @ [CHR 0x0A, CHR 0x0A])) (''_start:'' @ [CHR 0x0A])"

definition write_program_epilogue :: "CodegenContext \<Rightarrow> CodegenContext" where
  "write_program_epilogue context =
     context_write context [''mov X0, #0'', ''mov X16, #1'', ''svc #0'']"

definition write_static_segment :: "CodegenContext \<Rightarrow> CodegenContext" where
  "write_static_segment context =
     fold (\<lambda>(string_key, string_value) c.
             fd_write c (string_key @ '': .string '' @ [CHR 0x22] @ string_value
                         @ [CHR 0x22, CHR 0x0A]))
       (strings context)
       (fd_write context (''mem_buffer: .space 1000'' @ [CHR 0x0A]))"

text \<open>
  \<^verbatim>\<open>generate_ARM64_MacOS_backend\<close> with \<^verbatim>\<open>debug_comments\<close> disabled, on a sink that
  already holds \<open>sink\<close>. The result is the text of the sink after the run together with
  the program context as the run leaves it: the operators are objects shared with the
  caller, so what an arm changes in one is there for the next reader of the context.
\<close>

definition generate_ARM64_MacOS_backend ::
  "string \<Rightarrow> ProgramContext \<Rightarrow> error + (string \<times> ProgramContext)" where
  "generate_ARM64_MacOS_backend sink program_context =
     and_then
       (write_function_declarations \<lparr>fd = sink, strings = []\<rparr> program_context
          (function_table program_context))
       (\<lambda>(c1, functions').
          and_then
            (write_executable_body_instruction_set (write_entry_header c1)
               (operators program_context) program_context)
            (\<lambda>(c2, operators').
               Inr (fd (write_static_segment (write_program_epilogue c2)),
                    program_context\<lparr>operators := operators',
                                      function_table := functions'\<rparr>)))"

section \<open>Reading the emitted lines\<close>

text \<open>
  The data stack is the hardware stack: a slot is 16 bytes, a push is
  \<^verbatim>\<open>sub SP, SP, #16\<close> and a pop is \<^verbatim>\<open>add SP, SP, #16\<close>. The change of \<open>SP\<close> over
  a list of emitted lines is the sum of these adjustments; no other emitted line names
  \<open>SP\<close> as its destination.
\<close>

definition sp_change_of_line :: "string \<Rightarrow> int" where
  "sp_change_of_line line =
     (if line = ''add SP, SP, #16'' then 16
      else if line = ''sub SP, SP, #16'' then - 16 else 0)"

definition sp_change :: "string list \<Rightarrow> int" where
  "sp_change lines = sum_list (map sp_change_of_line lines)"

section \<open>Sample operators and programs\<close>

text \<open>An operator without control-flow link and without optimization block.\<close>

definition plain_operator :: "OperatorType \<Rightarrow> string \<Rightarrow> Operand \<Rightarrow> Operator" where
  "plain_operator t txt opd =
     \<lparr>type = t, token = \<lparr>token_text = txt\<rparr>, operand = opd,
      jumps_to_operator_idx = None, has_optimizations = False,
      infer_type_after_optimization = None,
      syscall_optimization_omit_result = False,
      syscall_optimization_injected_args = None\<rparr>"

definition push_integer_operator :: "int \<Rightarrow> Operator" where
  "push_integer_operator v = plain_operator PUSH_INTEGER (str_of_int v) (IntOperand v)"

definition intrinsic_operator :: "Intrinsic \<Rightarrow> Operator" where
  "intrinsic_operator i = plain_operator INTRINSIC (Intrinsic_name i) (IntrinsicOperand i)"

text \<open>The string literal \<^verbatim>\<open>"x"\<close>: the token text has the quotes, the operand has not.\<close>

definition push_string_x :: Operator where
  "push_string_x = plain_operator PUSH_STRING [CHR 0x22, CHR ''x'', CHR 0x22] (StrOperand ''x'')"

text \<open>A syscall intrinsic with an injected-args block.\<close>

definition syscall_operator :: "Intrinsic \<Rightarrow> int option list \<Rightarrow> Operator" where
  "syscall_operator i injected_args =
     (intrinsic_operator i)\<lparr>has_optimizations := True,
        syscall_optimization_injected_args := Some injected_args\<rparr>"

definition empty_program :: ProgramContext where
  "empty_program = \<lparr>operators = [], function_table = [], extern_functions = Some {}\<rparr>"

text \<open>A call of the function named \<open>f\<close>, and the context of a generator that has written nothing.\<close>

definition call_operator :: "string \<Rightarrow> Operator" where
  "call_operator f = plain_operator CALL f (StrOperand f)"

definition empty_context :: CodegenContext where
  "empty_context = \<lparr>fd = [], strings = []\<rparr>"

text \<open>
  The string literal \<^verbatim>\<open>"a\n"\<close>: the token text is the five characters of the source,
  the operand is the two characters they denote.
\<close>

definition escaped_string_operator :: Operator where
  "escaped_string_operator =
     plain_operator PUSH_STRING [CHR 0x22, CHR ''a'', CHR 0x5C, CHR ''n'', CHR 0x22]
       (StrOperand [CHR ''a'', CHR 0x0A])"

text \<open>
  A name that is both in the function table (an externally defined function of two
  arguments and no result) and in the external-function set.
\<close>

definition shadowed_function :: Function where
  "shadowed_function =
     \<lparr>name = ''puts'', type_contract_in = [POINTER, INTEGER], type_contract_out = [],
      source = [], emit_inline_body = False, is_externally_defined = True\<rparr>"

definition shadowing_program :: ProgramContext where
  "shadowing_program =
     \<lparr>operators = [], function_table = [(''puts'', shadowed_function)],
      extern_functions = Some {''puts''}\<rparr>"

text \<open>\<^verbatim>\<open>[PUSH_INTEGER 1, PUSH_INTEGER 2, INTRINSIC MEMORY_LOAD, INTRINSIC DROP]\<close>.\<close>

definition memory_load_program :: "Operator list" where
  "memory_load_program =
     [push_integer_operator 1, push_integer_operator 2,
      intrinsic_operator MEMORY_LOAD, intrinsic_operator DROP]"

text \<open>
  \<^verbatim>\<open>[PUSH_INTEGER 0, INTRINSIC SYSCALL1, INTRINSIC DROP]\<close> as a program, the syscall
  carrying the given injected-args block.
\<close>

definition syscall_program :: "int option list \<Rightarrow> ProgramContext" where
  "syscall_program injected_args =
     \<lparr>operators = [push_integer_operator 0, syscall_operator SYSCALL1 injected_args,
                   intrinsic_operator DROP],
      function_table = [], extern_functions = Some {}\<rparr>"

text \<open>
  Two functions that are neither inline nor external: \<open>f\<close> with contract
  \<open>(INTEGER) \<rightarrow> ()\<close> and body \<^verbatim>\<open>[INTRINSIC DROP]\<close>, which keeps its contract, and
  \<open>g\<close> with contract \<open>() \<rightarrow> (INTEGER)\<close> and an empty body, which does not. The program
  holds both and has an empty top-level sequence.
\<close>

definition drop_function :: Function where
  "drop_function =
     \<lparr>name = ''f'', type_contract_in = [INTEGER], type_contract_out = [],
      source = [intrinsic_operator DROP],
      emit_inline_body = False, is_externally_defined = False\<rparr>"

definition unchecked_function :: Function where
  "unchecked_function =
     \<lparr>name = ''g'', type_contract_in = [], type_contract_out = [INTEGER],
      source = [], emit_inline_body = False, is_externally_defined = False\<rparr>"

definition contract_program :: ProgramContext where
  "contract_program =
     \<lparr>operators = [],
      function_table = [(''f'', drop_function), (''g'', unchecked_function)],
      extern_functions = Some {}\<rparr>"

text \<open>The program context with every body of the function table replaced.\<close>

definition replace_bodies :: "(Function \<Rightarrow> Operator list) \<Rightarrow> ProgramContext \<Rightarrow> ProgramContext" where
  "replace_bodies body pc =
     pc\<lparr>function_table := map (\<lambda>(key, function). (key, function\<lparr>source := body function\<rparr>))
                              (function_table pc)\<rparr>"

text \<open>
  The whole output, on an empty sink, for a program without functions and string
  literals whose top-level sequence emits the given instruction lines.
\<close>

definition program_text :: "string list \<Rightarrow> string" where
  "program_text lines =
     fd (write_static_segment (write_program_epilogue
          (context_write (write_entry_header empty_context) lines)))"

section \<open>Auxiliary facts\<close>

lemma plain_operator_fields [simp]:
  "type (plain_operator t txt opd) = t"
  "operand (plain_operator t txt opd) = opd"
  "token (plain_operator t txt opd) = \<lparr>token_text = txt\<rparr>"
  "jumps_to_operator_idx (plain_operator t txt opd) = None"
  "has_optimizations (plain_operator t txt opd) = False"
  "infer_type_after_optimization (plain_operator t txt opd) = None"
  "syscall_optimization_omit_result (plain_operator t txt opd) = False"
  "syscall_optimization_injected_args (plain_operator t txt opd) = None"
  by (simp_all add: plain_operator_def)

lemma intrinsic_operator_fields [simp]:
  "type (intrinsic_operator i) = INTRINSIC"
  "operand (intrinsic_operator i) = IntrinsicOperand i"
  "syscall_optimization_omit_result (intrinsic_operator i) = False"
  "syscall_optimization_injected_args (intrinsic_operator i) = None"
  by (simp_all add: intrinsic_operator_def)

lemma push_integer_operator_fields [simp]:
  "type (push_integer_operator v) = PUSH_INTEGER"
  "operand (push_integer_operator v) = IntOperand v"
  "has_optimizations (push_integer_operator v) = False"
  "infer_type_after_optimization (push_integer_operator v) = None"
  by (simp_all add: push_integer_operator_def)

lemma syscall_operator_fields [simp]:
  "type (syscall_operator i args) = INTRINSIC"
  "operand (syscall_operator i args) = IntrinsicOperand i"
  "syscall_optimization_omit_result (syscall_operator i args) = False"
  "syscall_optimization_injected_args (syscall_operator i args) = Some args"
  by (simp_all add: syscall_operator_def)

lemma syscall_operator_pop [simp]:
  "(syscall_operator i args)\<lparr>syscall_optimization_injected_args := Some args'\<rparr>
     = syscall_operator i args'"
  by (simp add: syscall_operator_def)

lemma syscall_operator_eq [simp]:
  "syscall_operator i args = syscall_operator i' args' \<longleftrightarrow> i = i' \<and> args = args'"
  by (auto simp: syscall_operator_def intrinsic_operator_def plain_operator_def)

lemma push_string_x_fields [simp]:
  "type push_string_x = PUSH_STRING"
  "operand push_string_x = StrOperand ''x''"
  "token_text (token push_string_x) = [CHR 0x22, CHR ''x'', CHR 0x22]"
  by (simp_all add: push_string_x_def)

lemma pop_argument_type_snoc [simp]: "pop_argument_type (st @ [t]) = Inr (t, st)"
  by (simp add: pop_argument_type_def)

lemma pop_argument_type_Nil [simp]: "pop_argument_type [] = Inl IndexError"
  by (simp add: pop_argument_type_def)

lemma pop_and_raise_snoc [simp]:
  "pop_and_raise_for_argument_type e operator (st @ [t]) =
     (if t \<noteq> e then Inl (InvalidArgumentType e t operator) else Inr st)"
  by (simp add: pop_and_raise_for_argument_type_def)

lemma typecheck_plus_minus_top_two:
  "typecheck_plus_minus operator (rest @ [a, b]) =
     (if a = POINTER then
        (if b \<noteq> INTEGER then Inl (TypecheckInvalidPointerArithmeticsError a b operator)
         else Inr (rest @ [POINTER]))
      else if a \<noteq> INTEGER then Inl (InvalidArgumentType INTEGER a operator)
      else if b \<noteq> INTEGER then Inl (InvalidArgumentType INTEGER b operator)
      else Inr (rest @ [INTEGER]))"
proof -
  have two: "rest @ [a, b] = (rest @ [a]) @ [b]" by simp
  have swapped: "\<And>xs. xs @ [b, a] = (xs @ [b]) @ [a]" by simp
  show ?thesis
    unfolding typecheck_plus_minus_def raise_for_enough_arguments_def push_types_def two
    by (simp add: swapped del: append_assoc)
qed

lemma typecheck_operator_plus_minus:
  assumes "type operator = INTRINSIC" and "operand operator = IntrinsicOperand i"
    and "i = PLUS \<or> i = MINUS"
  shows "typecheck_operator pc operator st = typecheck_plus_minus operator st"
  using assms by (auto simp: typecheck_operator_def)

lemma context_write_append:
  "context_write (context_write c xs) ys = context_write c (xs @ ys)"
  by (simp add: context_write_def fd_write_def)

lemma str_of_nat_digit: "n < 10 \<Longrightarrow> str_of_nat n = [''0123456789'' ! n]"
  by (simp add: str_of_nat.simps)

lemma str_of_int_digit: "0 \<le> i \<Longrightarrow> i < 10 \<Longrightarrow> str_of_int i = [''0123456789'' ! nat i]"
  by (simp add: str_of_int_def str_of_nat_digit)

lemma call_operator_fields [simp]:
  "type (call_operator f) = CALL"
  "operand (call_operator f) = StrOperand f"
  by (simp_all add: call_operator_def)

lemma map_of_replace_bodies:
  "map_of (map (\<lambda>(key, function). (key, function\<lparr>source := body function\<rparr>)) table) f =
     map_option (\<lambda>function. function\<lparr>source := body function\<rparr>) (map_of table f)"
  by (induction table) auto

lemma typecheck_call_replace_bodies:
  "typecheck_call (replace_bodies body pc) operator st = typecheck_call pc operator st"
  by (cases "map_of (function_table pc) (str_of_operand (operand operator))")
     (simp_all add: typecheck_call_def replace_bodies_def get_extern_functions_def
        map_of_replace_bodies Let_def)

lemma typecheck_operator_replace_bodies:
  "typecheck_operator (replace_bodies body pc) operator st = typecheck_operator pc operator st"
  by (cases "type operator") (simp_all add: typecheck_operator_def typecheck_call_replace_bodies)

lemma typecheck_operators_replace_bodies:
  "typecheck_operators (replace_bodies body pc) ops st = typecheck_operators pc ops st"
proof (induction ops arbitrary: st)
  case Nil
  show ?case by simp
next
  case (Cons operator rest)
  show ?case
    by (cases "typecheck_operator pc operator st")
       (simp_all add: typecheck_operator_replace_bodies Cons.IH)
qed

lemma syscall_program_eq [simp]:
  "syscall_program xs = syscall_program ys \<longleftrightarrow> xs = ys"
  by (auto simp: syscall_program_def)

section \<open>Properties of the type-checker\<close>

text \<open>
  Claim C7. For a \<^verbatim>\<open>PLUS\<close> or \<^verbatim>\<open>MINUS\<close> intrinsic over a stack of depth at least
  two, with \<open>b\<close> the upper (first popped) and \<open>a\<close> the lower (second popped) type:
  a pointer below an integer is accepted and a pointer is pushed; two integers are
  accepted and an integer is pushed; every other combination is rejected with an error.
  So \<open>POINTER + INTEGER\<close> is accepted and \<open>INTEGER + POINTER\<close> is rejected.
\<close>

theorem plus_minus_rule:
  assumes "type operator = INTRINSIC" and "operand operator = IntrinsicOperand i"
    and "i = PLUS \<or> i = MINUS"
  shows "typecheck_operator pc operator (rest @ [a, b]) =
     (if a = POINTER \<and> b = INTEGER then Inr (rest @ [POINTER])
      else if a = INTEGER \<and> b = INTEGER then Inr (rest @ [INTEGER])
      else Inl (if a = POINTER then TypecheckInvalidPointerArithmeticsError a b operator
                else if a \<noteq> INTEGER then InvalidArgumentType INTEGER a operator
                else InvalidArgumentType INTEGER b operator))"
proof -
  have "typecheck_operator pc operator (rest @ [a, b]) =
          typecheck_plus_minus operator (rest @ [a, b])"
    using assms by (rule typecheck_operator_plus_minus)
  also have "\<dots> = (if a = POINTER \<and> b = INTEGER then Inr (rest @ [POINTER])
      else if a = INTEGER \<and> b = INTEGER then Inr (rest @ [INTEGER])
      else Inl (if a = POINTER then TypecheckInvalidPointerArithmeticsError a b operator
                else if a \<noteq> INTEGER then InvalidArgumentType INTEGER a operator
                else InvalidArgumentType INTEGER b operator))"
    by (simp add: typecheck_plus_minus_top_two)
  finally show ?thesis .
qed

theorem plus_minus_rule_witness:
  "typecheck_operator empty_program (intrinsic_operator PLUS) [POINTER, INTEGER] = Inr [POINTER]
   \<and> typecheck_operator empty_program (intrinsic_operator MINUS) [INTEGER, INTEGER] = Inr [INTEGER]
   \<and> typecheck_operator empty_program (intrinsic_operator PLUS) [INTEGER, POINTER]
       = Inl (InvalidArgumentType INTEGER POINTER (intrinsic_operator PLUS))"
  using plus_minus_rule [of "intrinsic_operator PLUS" PLUS empty_program "[]" POINTER INTEGER]
    plus_minus_rule [of "intrinsic_operator MINUS" MINUS empty_program "[]" INTEGER INTEGER]
    plus_minus_rule [of "intrinsic_operator PLUS" PLUS empty_program "[]" INTEGER POINTER]
  by simp

text \<open>
  Claim C5 says that \<^verbatim>\<open>PLUS\<close> or \<^verbatim>\<open>MINUS\<close> with an integer on the lower slot and a
  pointer on the upper slot fails with the invalid-pointer-arithmetic error. The
  sequence of the claim fails with the invalid-argument-type error instead: the
  pointer-arithmetic branch is entered only when the lower operand is a pointer.
\<close>

theorem integer_pointer_sum_counterexample:
  "validate_type_safety empty_program
     [push_integer_operator 5, push_string_x, intrinsic_operator DROP, intrinsic_operator PLUS]
   = Inl (InvalidArgumentType INTEGER POINTER (intrinsic_operator PLUS))"
  by (simp add: validate_type_safety_def typecheck_operator_def push_types_def
      typecheck_consume_push_def raise_for_enough_arguments_def pop_argument_type_def
      typecheck_plus_minus_def pop_and_raise_for_argument_type_def)

text \<open>
  Claim C5, amended. For every \<^verbatim>\<open>PLUS\<close> or \<^verbatim>\<open>MINUS\<close> intrinsic applied to a stack
  whose lower operand (popped second) is \<open>INTEGER\<close> and whose upper operand (popped
  first) is \<open>POINTER\<close>, the type-checker fails with the invalid-argument-type error:
  expected \<open>INTEGER\<close>, actual \<open>POINTER\<close>, annotated with the operator.
\<close>

theorem integer_pointer_sum_rejected_as_argument_type:
  assumes "type operator = INTRINSIC" and "operand operator = IntrinsicOperand i"
    and "i = PLUS \<or> i = MINUS"
  shows "typecheck_operator pc operator (rest @ [INTEGER, POINTER])
           = Inl (InvalidArgumentType INTEGER POINTER operator)"
proof -
  have "typecheck_operator pc operator (rest @ [INTEGER, POINTER]) =
          typecheck_plus_minus operator (rest @ [INTEGER, POINTER])"
    using assms by (rule typecheck_operator_plus_minus)
  then show ?thesis by (simp add: typecheck_plus_minus_top_two)
qed

theorem integer_pointer_sum_rejected_witness:
  "typecheck_operator empty_program (intrinsic_operator MINUS) [BOOLEAN, INTEGER, POINTER]
     = Inl (InvalidArgumentType INTEGER POINTER (intrinsic_operator MINUS))"
  using integer_pointer_sum_rejected_as_argument_type
          [of "intrinsic_operator MINUS" MINUS empty_program "[BOOLEAN]"]
  by simp

text \<open>
  Claim C6 says that every pop is preceded by a depth check that covers it, so that
  \<^verbatim>\<open>SWAP\<close> on a stack of depth one raises the insufficient-operands error. The
  \<^verbatim>\<open>SWAP\<close> arm checks for one operand and pops two: on a stack of depth one the check
  passes and the second pop reaches below the bottom of the stack.
\<close>

theorem swap_depth_one_pops_past_bottom:
  "typecheck_operator pc (intrinsic_operator SWAP) [t] = Inl IndexError
   \<and> validate_type_safety pc [push_integer_operator 1, intrinsic_operator SWAP] = Inl IndexError"
  by (simp add: validate_type_safety_def typecheck_operator_def push_types_def
      typecheck_swap_def raise_for_enough_arguments_def pop_argument_type_def)

text \<open>
  Claim C8. Top-level validation succeeds only if the abstract stack is empty after the
  whole operator sequence; otherwise it raises the non-empty-stack error carrying the
  residual size. The program \<^verbatim>\<open>[PUSH_INTEGER 1]\<close> fails with residual size 1.
\<close>

theorem top_level_requires_empty_stack:
  "(validate_type_safety pc ops = Inr () \<longleftrightarrow> typecheck_operators pc ops [] = Inr [])
   \<and> (\<forall>st. typecheck_operators pc ops [] = Inr st \<and> st \<noteq> [] \<longrightarrow>
          validate_type_safety pc ops = Inl (TypecheckNonEmptyStackAtEndError (length st)))
   \<and> validate_type_safety pc [push_integer_operator 1] = Inl (TypecheckNonEmptyStackAtEndError 1)"
proof (intro conjI allI impI)
  show "validate_type_safety pc ops = Inr () \<longleftrightarrow> typecheck_operators pc ops [] = Inr []"
    by (cases "typecheck_operators pc ops []") (simp_all add: validate_type_safety_def)
next
  fix st
  assume "typecheck_operators pc ops [] = Inr st \<and> st \<noteq> []"
  then show "validate_type_safety pc ops = Inl (TypecheckNonEmptyStackAtEndError (length st))"
    by (simp add: validate_type_safety_def)
next
  show "validate_type_safety pc [push_integer_operator 1] = Inl (TypecheckNonEmptyStackAtEndError 1)"
    by (simp add: validate_type_safety_def typecheck_operator_def push_types_def)
qed

theorem top_level_requires_empty_stack_witness:
  "typecheck_operators empty_program [push_integer_operator 1, push_string_x] []
     = Inr [INTEGER, POINTER, INTEGER]
   \<and> validate_type_safety empty_program [push_integer_operator 1, push_string_x]
     = Inl (TypecheckNonEmptyStackAtEndError 3)"
proof -
  have run: "typecheck_operators empty_program [push_integer_operator 1, push_string_x] []
     = Inr [INTEGER, POINTER, INTEGER]"
    by (simp add: typecheck_operator_def push_types_def)
  with top_level_requires_empty_stack
         [of empty_program "[push_integer_operator 1, push_string_x]"]
  show ?thesis by simp
qed

text \<open>
  Claim C1 says that the type-checker also runs over the body of every function that is
  neither external nor inline, from the function's input contract, and accepts only if
  the final abstract stack is the output contract. \<^verbatim>\<open>validate_type_safety\<close> has no
  such run: the program below is accepted, and so is the body of \<open>g\<close> when it is the
  sequence to validate, although \<open>g\<close> run from its input contract ends on a stack other
  than its output contract; the body of \<open>f\<close>, which does keep its contract, is
  rejected, since validation starts on the empty stack.
\<close>

theorem function_contract_counterexample:
  "map_of (function_table contract_program) ''g'' = Some unchecked_function
   \<and> \<not> is_externally_defined unchecked_function \<and> \<not> emit_inline_body unchecked_function
   \<and> validate_type_safety contract_program (operators contract_program) = Inr ()
   \<and> validate_type_safety contract_program (source unchecked_function) = Inr ()
   \<and> typecheck_operators contract_program (source unchecked_function)
        (type_contract_in unchecked_function) = Inr []
   \<and> type_contract_out unchecked_function = [INTEGER]
   \<and> typecheck_operators contract_program (source drop_function)
        (type_contract_in drop_function) = Inr (type_contract_out drop_function)
   \<and> validate_type_safety contract_program (source drop_function)
        = Inl (InsufficientOperands (intrinsic_operator DROP) 1)"
  by (simp add: contract_program_def unchecked_function_def drop_function_def
      validate_type_safety_def typecheck_operator_def typecheck_consume_push_def
      raise_for_enough_arguments_def pop_argument_type_def push_types_def)

text \<open>
  Claim C1, amended. \<^verbatim>\<open>validate_type_safety\<close> checks the operator sequence it is
  given and no other: it reads the function table only for the contracts of call
  targets, so replacing every body in the table leaves its result unchanged; and given
  a function's body as the sequence, it starts from the empty abstract stack and accepts
  exactly when the run from the empty stack ends on the empty stack, whatever the
  function's contracts.
\<close>

theorem validation_ignores_function_contracts:
  "validate_type_safety (replace_bodies body pc) ops = validate_type_safety pc ops
   \<and> (validate_type_safety pc (source function) = Inr ()
        \<longleftrightarrow> typecheck_operators pc (source function) [] = Inr [])"
proof
  show "validate_type_safety (replace_bodies body pc) ops = validate_type_safety pc ops"
    by (simp add: validate_type_safety_def typecheck_operators_replace_bodies)
next
  show "validate_type_safety pc (source function) = Inr ()
        \<longleftrightarrow> typecheck_operators pc (source function) [] = Inr []"
    by (cases "typecheck_operators pc (source function) []")
       (simp_all add: validate_type_safety_def)
qed

theorem validation_ignores_function_contracts_witness:
  "validate_type_safety (replace_bodies (\<lambda>_. [push_integer_operator 1]) contract_program) []
     = Inr ()
   \<and> validate_type_safety contract_program (source unchecked_function) = Inr ()"
  using validation_ignores_function_contracts
          [of "\<lambda>_. [push_integer_operator 1]" contract_program "[]" unchecked_function]
  by (simp add: validate_type_safety_def unchecked_function_def)

section \<open>Properties of the code generator\<close>

text \<open>
  Claim C2 says that the template emitted for \<^verbatim>\<open>MEMORY_LOAD\<close> has the stack effect
  the type-checker assigns to it: two slots consumed and one produced, a net change of
  \<open>SP\<close> by \<open>+16\<close>. The type-checker does pop two and push one, but the template never
  adjusts \<open>SP\<close>: it replaces the top slot in place. A program that type-checks with an
  empty final stack therefore leaves a slot on the data stack.
\<close>

theorem memory_load_template_keeps_depth:
  "typecheck_operator pc (intrinsic_operator MEMORY_LOAD) (rest @ [a, b]) = Inr (rest @ [INTEGER])
   \<and> write_operator c pc idx (intrinsic_operator MEMORY_LOAD) =
       Inr (context_write c [''ldr X0, [SP]'', ''ldr X1, [X0]'', ''str X1, [SP]''],
            intrinsic_operator MEMORY_LOAD)
   \<and> sp_change [''ldr X0, [SP]'', ''ldr X1, [X0]'', ''str X1, [SP]''] = 0
   \<and> validate_type_safety pc memory_load_program = Inr ()
   \<and> write_executable_body_instruction_set c memory_load_program pc =
       Inr (context_write c
              [''sub SP, SP, #16'', ''mov X0, #1'', ''str X0, [SP]'',
               ''sub SP, SP, #16'', ''mov X0, #2'', ''str X0, [SP]'',
               ''ldr X0, [SP]'', ''ldr X1, [X0]'', ''str X1, [SP]'',
               ''add SP, SP, #16''],
            memory_load_program)
   \<and> sp_change
         [''sub SP, SP, #16'', ''mov X0, #1'', ''str X0, [SP]'',
          ''sub SP, SP, #16'', ''mov X0, #2'', ''str X0, [SP]'',
          ''ldr X0, [SP]'', ''ldr X1, [X0]'', ''str X1, [SP]'',
          ''add SP, SP, #16''] = - 16"
proof (intro conjI)
  have two: "rest @ [a, b] = (rest @ [a]) @ [b]" by simp
  show "typecheck_operator pc (intrinsic_operator MEMORY_LOAD) (rest @ [a, b]) = Inr (rest @ [INTEGER])"
    unfolding two
    by (simp add: typecheck_operator_def typecheck_consume_push_def
        raise_for_enough_arguments_def push_types_def numeral_2_eq_2 del: append_assoc)
  show "write_operator c pc idx (intrinsic_operator MEMORY_LOAD) =
       Inr (context_write c [''ldr X0, [SP]'', ''ldr X1, [X0]'', ''str X1, [SP]''],
            intrinsic_operator MEMORY_LOAD)"
    by (simp add: write_operator_def)
  show "sp_change [''ldr X0, [SP]'', ''ldr X1, [X0]'', ''str X1, [SP]''] = 0"
    by (simp add: sp_change_def sp_change_of_line_def)
  show "validate_type_safety pc memory_load_program = Inr ()"
    by (simp add: memory_load_program_def validate_type_safety_def typecheck_operator_def
        typecheck_consume_push_def raise_for_enough_arguments_def push_types_def
        pop_argument_type_def numeral_2_eq_2)
  show "write_executable_body_instruction_set c memory_load_program pc =
       Inr (context_write c
              [''sub SP, SP, #16'', ''mov X0, #1'', ''str X0, [SP]'',
               ''sub SP, SP, #16'', ''mov X0, #2'', ''str X0, [SP]'',
               ''ldr X0, [SP]'', ''ldr X1, [X0]'', ''str X1, [SP]'',
               ''add SP, SP, #16''],
            memory_load_program)"
    by (simp add: memory_load_program_def write_executable_body_instruction_set_def
        write_operator_def context_write_append str_of_int_digit)
  show "sp_change
         [''sub SP, SP, #16'', ''mov X0, #1'', ''str X0, [SP]'',
          ''sub SP, SP, #16'', ''mov X0, #2'', ''str X0, [SP]'',
          ''ldr X0, [SP]'', ''ldr X1, [X0]'', ''str X1, [SP]'',
          ''add SP, SP, #16''] = - 16"
    by (simp add: sp_change_def sp_change_of_line_def)
qed

text \<open>
  Claim C3 says that the syscall lowering pops register \<open>Xp\<close> from the stack exactly
  when injected slot \<open>p\<close> is \<open>None\<close> and otherwise moves slot \<open>p\<close>'s value into
  \<open>Xp\<close>. The loop reads \<^verbatim>\<open>injected_args[-arg_n] if arg_n else None\<close>: the highest
  argument register is always popped, and every lower register \<open>Xp\<close> is filled from
  slot \<open>p + 1\<close>.
\<close>

theorem syscall_injected_slots_shifted:
  "write_operator c pc idx (syscall_operator SYSCALL2 [None, Some 7, None]) =
     Inr (context_write c
            [''ldr X16, [SP]'', ''add SP, SP, #16'',
             ''ldr X1, [SP]'', ''add SP, SP, #16'',
             ''mov X0, #7'',
             ''svc #0'', ''sub SP, SP, #16'', ''str X0, [SP]''],
          syscall_operator SYSCALL2 [None, Some 7])
   \<and> write_operator c pc idx (syscall_operator SYSCALL1 [Some 5, None]) =
     Inr (context_write c
            [''ldr X16, [SP]'', ''add SP, SP, #16'',
             ''ldr X0, [SP]'', ''add SP, SP, #16'',
             ''svc #0'', ''sub SP, SP, #16'', ''str X0, [SP]''],
          syscall_operator SYSCALL1 [Some 5])"
  by (simp add: write_operator_def write_syscall_def write_syscall_with_def list_index_def
      Let_def upt_rec context_write_append str_of_nat_digit str_of_int_digit)

text \<open>
  Claim C4 says that two runs of the generator on the same type-checked program context
  give the same output and leave the context unchanged. The syscall arm pops the
  operator's own injected-args list, so the second run reads a shorter list: here the
  first run moves the syscall number in as an immediate and the second pops it from the
  stack.
\<close>

theorem generator_not_repeatable:
  "validate_type_safety (syscall_program [None, Some 1])
     (operators (syscall_program [None, Some 1])) = Inr ()
   \<and> generate_ARM64_MacOS_backend [] (syscall_program [None, Some 1]) =
       Inr (program_text
              [''sub SP, SP, #16'', ''mov X0, #0'', ''str X0, [SP]'',
               ''mov X16, #1'',
               ''ldr X0, [SP]'', ''add SP, SP, #16'',
               ''svc #0'', ''sub SP, SP, #16'', ''str X0, [SP]'',
               ''add SP, SP, #16''],
            syscall_program [None])
   \<and> generate_ARM64_MacOS_backend [] (syscall_program [None]) =
       Inr (program_text
              [''sub SP, SP, #16'', ''mov X0, #0'', ''str X0, [SP]'',
               ''ldr X16, [SP]'', ''add SP, SP, #16'',
               ''ldr X0, [SP]'', ''add SP, SP, #16'',
               ''svc #0'', ''sub SP, SP, #16'', ''str X0, [SP]'',
               ''add SP, SP, #16''],
            syscall_program [])
   \<and> program_text
              [''sub SP, SP, #16'', ''mov X0, #0'', ''str X0, [SP]'',
               ''mov X16, #1'',
               ''ldr X0, [SP]'', ''add SP, SP, #16'',
               ''svc #0'', ''sub SP, SP, #16'', ''str X0, [SP]'',
               ''add SP, SP, #16'']
       \<noteq> program_text
              [''sub SP, SP, #16'', ''mov X0, #0'', ''str X0, [SP]'',
               ''ldr X16, [SP]'', ''add SP, SP, #16'',
               ''ldr X0, [SP]'', ''add SP, SP, #16'',
               ''svc #0'', ''sub SP, SP, #16'', ''str X0, [SP]'',
               ''add SP, SP, #16'']
   \<and> syscall_program [None] \<noteq> syscall_program [None, Some 1]"
proof (intro conjI)
  show "validate_type_safety (syscall_program [None, Some 1])
     (operators (syscall_program [None, Some 1])) = Inr ()"
    by (simp add: syscall_program_def validate_type_safety_def typecheck_operator_def
        typecheck_syscall_def typecheck_consume_push_def raise_for_enough_arguments_def
        pop_argument_type_def push_types_def numeral_2_eq_2 Let_def)
  have body1: "write_executable_body_instruction_set c
                 (operators (syscall_program [None, Some 1])) pc =
       Inr (context_write c
              [''sub SP, SP, #16'', ''mov X0, #0'', ''str X0, [SP]'',
               ''mov X16, #1'',
               ''ldr X0, [SP]'', ''add SP, SP, #16'',
               ''svc #0'', ''sub SP, SP, #16'', ''str X0, [SP]'',
               ''add SP, SP, #16''],
            operators (syscall_program [None]))" for c pc
    by (simp add: syscall_program_def write_executable_body_instruction_set_def
        write_operator_def write_syscall_def write_syscall_with_def list_index_def
        Let_def upt_rec context_write_append str_of_nat_digit str_of_int_digit)
  have body2: "write_executable_body_instruction_set c
                 (operators (syscall_program [None])) pc =
       Inr (context_write c
              [''sub SP, SP, #16'', ''mov X0, #0'', ''str X0, [SP]'',
               ''ldr X16, [SP]'', ''add SP, SP, #16'',
               ''ldr X0, [SP]'', ''add SP, SP, #16'',
               ''svc #0'', ''sub SP, SP, #16'', ''str X0, [SP]'',
               ''add SP, SP, #16''],
            operators (syscall_program []))" for c pc
    by (simp add: syscall_program_def write_executable_body_instruction_set_def
        write_operator_def write_syscall_def write_syscall_with_def list_index_def
        Let_def upt_rec context_write_append str_of_nat_digit str_of_int_digit)
  have table: "function_table (syscall_program xs) = []" for xs
    by (simp add: syscall_program_def)
  have update: "(syscall_program xs)\<lparr>operators := operators (syscall_program ys),
                    function_table := []\<rparr> = syscall_program ys" for xs ys
    by (simp add: syscall_program_def)
  show "generate_ARM64_MacOS_backend [] (syscall_program [None, Some 1]) =
       Inr (program_text
              [''sub SP, SP, #16'', ''mov X0, #0'', ''str X0, [SP]'',
               ''mov X16, #1'',
               ''ldr X0, [SP]'', ''add SP, SP, #16'',
               ''svc #0'', ''sub SP, SP, #16'', ''str X0, [SP]'',
               ''add SP, SP, #16''],
            syscall_program [None])"
    by (simp add: generate_ARM64_MacOS_backend_def table body1 update program_text_def
        empty_context_def)
  show "generate_ARM64_MacOS_backend [] (syscall_program [None]) =
       Inr (program_text
              [''sub SP, SP, #16'', ''mov X0, #0'', ''str X0, [SP]'',
               ''ldr X16, [SP]'', ''add SP, SP, #16'',
               ''ldr X0, [SP]'', ''add SP, SP, #16'',
               ''svc #0'', ''sub SP, SP, #16'', ''str X0, [SP]'',
               ''add SP, SP, #16''],
            syscall_program [])"
    by (simp add: generate_ARM64_MacOS_backend_def table body2 update program_text_def
        empty_context_def)
  show "program_text
              [''sub SP, SP, #16'', ''mov X0, #0'', ''str X0, [SP]'',
               ''mov X16, #1'',
               ''ldr X0, [SP]'', ''add SP, SP, #16'',
               ''svc #0'', ''sub SP, SP, #16'', ''str X0, [SP]'',
               ''add SP, SP, #16'']
       \<noteq> program_text
              [''sub SP, SP, #16'', ''mov X0, #0'', ''str X0, [SP]'',
               ''ldr X16, [SP]'', ''add SP, SP, #16'',
               ''ldr X0, [SP]'', ''add SP, SP, #16'',
               ''svc #0'', ''sub SP, SP, #16'', ''str X0, [SP]'',
               ''add SP, SP, #16'']"
    by (simp add: program_text_def write_static_segment_def write_program_epilogue_def
        context_write_def fd_write_def write_entry_header_def empty_context_def)
  show "syscall_program [None] \<noteq> syscall_program [None, Some 1]"
    by simp
qed

text \<open>
  Claim C9. For a \<^verbatim>\<open>CALL\<close> whose target is both in the function table and in the
  external-function set, the type-checker gives the external set precedence and applies
  the fixed contract (pop one \<open>INTEGER\<close>, push one \<open>INTEGER\<close>) whatever the record
  declares, while the code generator gives the function table precedence and lowers the
  call from the function record.
\<close>

theorem call_target_precedence:
  assumes "type operator = CALL" and "operand operator = StrOperand f"
    and "f \<in> get_extern_functions pc"
    and "map_of (function_table pc) f = Some function"
  shows "typecheck_operator pc operator st =
           (if st = [] then Inl (InsufficientOperands operator 1)
            else if last st \<noteq> INTEGER then Inl (InvalidArgumentType INTEGER (last st) operator)
            else Inr (butlast st @ [INTEGER]))
       \<and> write_operator c pc idx operator =
           Inr (if type_contract_out function \<noteq> []
                then context_write
                       (context_write
                          (if is_externally_defined function
                           then write_call_registers c (rev [0..<length (type_contract_in function)])
                           else c)
                          [''bl '' @ f])
                       [''sub SP, SP, #16'', ''str X0, [SP]'']
                else context_write
                       (if is_externally_defined function
                        then write_call_registers c (rev [0..<length (type_contract_in function)])
                        else c)
                       [''bl '' @ f],
                operator)"
proof
  show "typecheck_operator pc operator st =
           (if st = [] then Inl (InsufficientOperands operator 1)
            else if last st \<noteq> INTEGER then Inl (InvalidArgumentType INTEGER (last st) operator)
            else Inr (butlast st @ [INTEGER]))"
    using assms(1-3)
    by (simp add: typecheck_operator_def typecheck_call_def raise_for_enough_arguments_def
        pop_and_raise_for_argument_type_def pop_argument_type_def push_types_def)
next
  show "write_operator c pc idx operator =
           Inr (if type_contract_out function \<noteq> []
                then context_write
                       (context_write
                          (if is_externally_defined function
                           then write_call_registers c (rev [0..<length (type_contract_in function)])
                           else c)
                          [''bl '' @ f])
                       [''sub SP, SP, #16'', ''str X0, [SP]'']
                else context_write
                       (if is_externally_defined function
                        then write_call_registers c (rev [0..<length (type_contract_in function)])
                        else c)
                       [''bl '' @ f],
                operator)"
    using assms(1,2,4)
    by (simp add: write_operator_def write_call_def Let_def)
qed

theorem call_target_precedence_witness:
  "typecheck_operator shadowing_program (call_operator ''puts'') [INTEGER] = Inr [INTEGER]
   \<and> write_operator empty_context shadowing_program 0 (call_operator ''puts'') =
       Inr (context_write empty_context
              [''ldr X1, [SP]'', ''add SP, SP, #16'', ''ldr X0, [SP]'', ''add SP, SP, #16'',
               ''bl puts''],
            call_operator ''puts'')"
proof -
  have ext: "''puts'' \<in> get_extern_functions shadowing_program"
    by (simp add: get_extern_functions_def shadowing_program_def)
  have tab: "map_of (function_table shadowing_program) ''puts'' = Some shadowed_function"
    by (simp add: shadowing_program_def)
  have regs: "rev [0..<length (type_contract_in shadowed_function)] = [1, 0]"
    by (simp add: shadowed_function_def upt_rec)
  from call_target_precedence
         [of "call_operator ''puts''" "''puts''" shadowing_program shadowed_function
             "[INTEGER]" empty_context 0, OF _ _ ext tab]
  show ?thesis
    by (simp add: regs context_write_append str_of_nat_digit)
       (simp add: shadowed_function_def)
qed

text \<open>
  Claim C10. For a \<^verbatim>\<open>PUSH_STRING\<close> operator the generator interns the token text
  without its first and last character as the payload, and the length immediate it
  pushes is the length of the operand string, not of the payload; the two disagree
  where operand and stripped token text differ.
\<close>

theorem push_string_payload_and_length:
  assumes "type operator = PUSH_STRING" and "operand operator = StrOperand s"
  shows "write_operator c pc idx operator =
           Inr (context_write
                  (c\<lparr>strings := strings c @
                       [(''str_'' @ str_of_nat (length (strings c)),
                         strip_first_last (token_text (token operator)))]\<rparr>)
                  [''sub SP, SP, #16'',
                   ''adr X0, '' @ (''str_'' @ str_of_nat (length (strings c))),
                   ''str X0, [SP]'',
                   ''sub SP, SP, #16'',
                   ''mov X0, #'' @ str_of_nat (length s),
                   ''str X0, [SP]''],
                operator)
       \<and> strip_first_last (token_text (token operator)) = butlast (tl (token_text (token operator)))
       \<and> (\<exists>(operator' :: Operator) s'. type operator' = PUSH_STRING \<and> operand operator' = StrOperand s'
             \<and> length s' \<noteq> length (strip_first_last (token_text (token operator'))))"
proof (intro conjI)
  show "write_operator c pc idx operator =
           Inr (context_write
                  (c\<lparr>strings := strings c @
                       [(''str_'' @ str_of_nat (length (strings c)),
                         strip_first_last (token_text (token operator)))]\<rparr>)
                  [''sub SP, SP, #16'',
                   ''adr X0, '' @ (''str_'' @ str_of_nat (length (strings c))),
                   ''str X0, [SP]'',
                   ''sub SP, SP, #16'',
                   ''mov X0, #'' @ str_of_nat (length s),
                   ''str X0, [SP]''],
                operator)"
    using assms by (simp add: write_operator_def load_string_def Let_def)
next
  show "strip_first_last (token_text (token operator)) = butlast (tl (token_text (token operator)))"
    by (simp add: strip_first_last_def)
next
  have "type escaped_string_operator = PUSH_STRING
        \<and> operand escaped_string_operator = StrOperand [CHR ''a'', CHR 0x0A]
        \<and> length [CHR ''a'', CHR 0x0A]
            \<noteq> length (strip_first_last (token_text (token escaped_string_operator)))"
    by (simp add: escaped_string_operator_def strip_first_last_def)
  then show "\<exists>(operator' :: Operator) s'. type operator' = PUSH_STRING \<and> operand operator' = StrOperand s'
             \<and> length s' \<noteq> length (strip_first_last (token_text (token operator')))"
    by (intro exI [of _ escaped_string_operator] exI [of _ "[CHR ''a'', CHR 0x0A]"])
qed

theorem push_string_payload_and_length_witness:
  "write_operator empty_context empty_program 0 escaped_string_operator =
     Inr (context_write
            \<lparr>fd = [], strings = [(''str_0'', [CHR ''a'', CHR 0x5C, CHR ''n''])]\<rparr>
            [''sub SP, SP, #16'', ''adr X0, str_0'', ''str X0, [SP]'',
             ''sub SP, SP, #16'', ''mov X0, #2'', ''str X0, [SP]''],
          escaped_string_operator)"
proof -
  have fields: "type escaped_string_operator = PUSH_STRING"
    "operand escaped_string_operator = StrOperand [CHR ''a'', CHR 0x0A]"
    "token_text (token escaped_string_operator) = [CHR 0x22, CHR ''a'', CHR 0x5C, CHR ''n'', CHR 0x22]"
    by (simp_all add: escaped_string_operator_def)
  from push_string_payload_and_length
         [of escaped_string_operator "[CHR ''a'', CHR 0x0A]" empty_context empty_program 0,
          OF fields(1,2), THEN conjunct1]
  show ?thesis
    by (simp add: fields empty_context_def strip_first_last_def str_of_nat_digit)
qed

end
